theory Spec2Isabelle
  imports Complex_Main "HOL-Library.Log_Nat" "HOL-Library.Sublist" "HOL-Library.AList"
begin

section \<open>Python values shared by both scripts\<close>

text \<open>
  The exceptions that the two scripts can raise, directly or through a built-in.
  \<open>ExternalError\<close> stands for whatever a collaborator outside of the repository
  (the Azure SDK, \<open>subprocess\<close>, the file system, the JSON parser) raises.
\<close>

datatype py_error =
    ValueError
  | OverflowError
  | KeyError string
  | TypeError
  | AttributeError
  | ExternalError string

subsection \<open>Python floats\<close>

text \<open>
  A Python \<open>float\<close> is an IEEE 754 binary64 number: a finite value (kept here as the
  rational it denotes), one of the two infinities, or a NaN. The sign of a zero is not kept:
  \<open>0.0\<close> and \<open>-0.0\<close> are equal in Python, too, and \<open>int\<close> maps both to \<open>0\<close>.
\<close>

datatype pyfloat = Fin rat | PInf | NInf | NaN

definition pow2 :: "int \<Rightarrow> rat" where
  "pow2 e = (if 0 \<le> e then 2 ^ nat e else 1 / 2 ^ nat (- e))"

text \<open>
  The binary exponent of a non-zero rational, the \<open>e\<close> with \<open>2 ^ e \<le> \<bar>x\<bar> < 2 ^ (e + 1)\<close>:
  one less than the number of bits of the integral part from \<open>1\<close> on, and below \<open>1\<close> the
  least \<open>k\<close> with \<open>1 / \<bar>x\<bar> \<le> 2 ^ k\<close>, negated.
\<close>

definition float_exponent :: "rat \<Rightarrow> int" where
  "float_exponent x =
     (let a = \<bar>x\<bar>
      in if 1 \<le> a then bitlen \<lfloor>a\<rfloor> - 1 else - bitlen (\<lceil>1 / a\<rceil> - 1))"

definition round_half_even :: "rat \<Rightarrow> int" where
  "round_half_even x =
     (let n = \<lfloor>x\<rfloor>; d = x - of_int n
      in if d < 1 / 2 then n
         else if 1 / 2 < d then n + 1
         else if even n then n else n + 1)"

text \<open>
  Rounding of an exact result to binary64, to nearest with ties to even: 53 significant bits,
  least exponent \<open>-1022\<close> (below it the subnormal spacing \<open>2 ^ -1074\<close>), overflow to an
  infinity from \<open>2 ^ 1024\<close> on.
\<close>

definition fl_round :: "rat \<Rightarrow> pyfloat" where
  "fl_round x =
     (if x = 0 then Fin 0
      else
        let e = max (float_exponent x) (- 1022);
            q = pow2 (e - 52);
            y = of_int (round_half_even (\<bar>x\<bar> / q)) * q
        in if pow2 1024 \<le> y then (if 0 < x then PInf else NInf)
           else Fin (sgn x * y))"

text \<open>Python's \<open>a - b\<close> on floats.\<close>

fun fl_sub :: "pyfloat \<Rightarrow> pyfloat \<Rightarrow> pyfloat" where
  "fl_sub (Fin a) (Fin b) = fl_round (a - b)"
| "fl_sub (Fin a) PInf = NInf"
| "fl_sub (Fin a) NInf = PInf"
| "fl_sub PInf (Fin b) = PInf"
| "fl_sub PInf NInf = PInf"
| "fl_sub NInf (Fin b) = NInf"
| "fl_sub NInf PInf = NInf"
| "fl_sub PInf PInf = NaN"
| "fl_sub NInf NInf = NaN"
| "fl_sub NaN b = NaN"
| "fl_sub a NaN = NaN"

definition inf_times :: "bool \<Rightarrow> rat \<Rightarrow> pyfloat" where
  "inf_times positive a =
     (if a = 0 then NaN else if (0 < a) = positive then PInf else NInf)"

text \<open>Python's \<open>a * b\<close> on floats.\<close>

fun fl_mul :: "pyfloat \<Rightarrow> pyfloat \<Rightarrow> pyfloat" where
  "fl_mul (Fin a) (Fin b) = fl_round (a * b)"
| "fl_mul (Fin a) PInf = inf_times True a"
| "fl_mul (Fin a) NInf = inf_times False a"
| "fl_mul PInf (Fin b) = inf_times True b"
| "fl_mul NInf (Fin b) = inf_times False b"
| "fl_mul PInf PInf = PInf"
| "fl_mul NInf NInf = PInf"
| "fl_mul PInf NInf = NInf"
| "fl_mul NInf PInf = NInf"
| "fl_mul NaN b = NaN"
| "fl_mul a NaN = NaN"

text \<open>Python's \<open>a <= b\<close> on floats: every comparison with a NaN is false.\<close>

fun fl_le :: "pyfloat \<Rightarrow> pyfloat \<Rightarrow> bool" where
  "fl_le (Fin a) (Fin b) = (a \<le> b)"
| "fl_le (Fin a) PInf = True"
| "fl_le (Fin a) NInf = False"
| "fl_le PInf (Fin b) = False"
| "fl_le NInf (Fin b) = True"
| "fl_le PInf PInf = True"
| "fl_le NInf NInf = True"
| "fl_le NInf PInf = True"
| "fl_le PInf NInf = False"
| "fl_le NaN b = False"
| "fl_le a NaN = False"

text \<open>
  Python's \<open>int(x)\<close> on a float: the integral part of \<open>x\<close>, with the sign of \<open>x\<close>;
  \<open>ValueError\<close> on a NaN and \<open>OverflowError\<close> on an infinity.
\<close>

fun py_int :: "pyfloat \<Rightarrow> py_error + int" where
  "py_int (Fin x) = Inr (if x < 0 then - \<lfloor>\<bar>x\<bar>\<rfloor> else \<lfloor>\<bar>x\<bar>\<rfloor>)"
| "py_int NaN = Inl ValueError"
| "py_int PInf = Inl OverflowError"
| "py_int NInf = Inl OverflowError"

text \<open>
  The specification's words, "integer truncation toward zero": the floor of a non-negative
  number and the ceiling of a negative one.
\<close>

definition trunc_toward_zero :: "rat \<Rightarrow> int" where
  "trunc_toward_zero x = (if 0 \<le> x then \<lfloor>x\<rfloor> else \<lceil>x\<rceil>)"

section \<open>The Performance Tracker (\<open>flows/interview-workflow/performance.py\<close>)\<close>

text \<open>The dictionary \<open>metrics\<close>, with its five fixed keys.\<close>

record performance_record =
  total_execution_time_ms :: int
  start_time :: pyfloat
  end_time :: pyfloat
  status :: string
  workflow_version :: string

text \<open>
  \<open>track_performance\<close>. The first argument is the value that \<open>time.time()\<close> returns during
  the call; the second is the argument \<open>start_time\<close>, a float as its annotation says. The
  call raises what \<open>int\<close> raises. The decorator \<open>tool\<close> of promptflow registers the function
  and calls it unchanged; it is not modelled.
\<close>

definition track_performance :: "pyfloat \<Rightarrow> pyfloat \<Rightarrow> py_error + performance_record" where
  "track_performance now start =
     (let end_t = now;
          total_time = fl_sub end_t start
      in case py_int (fl_mul total_time (Fin 1000)) of
           Inl e \<Rightarrow> Inl e
         | Inr ms \<Rightarrow>
             Inr \<lparr> total_execution_time_ms = ms,
                   start_time = start,
                   end_time = end_t,
                   status = ''completed'',
                   workflow_version = ''v1.0'' \<rparr>)"

section \<open>The Deployment Driver (\<open>infra/deploy.py\<close>)\<close>

subsection \<open>JSON documents as Python values\<close>

text \<open>
  What \<open>json.load\<close> builds, and what the SDK hands back as outputs. A \<open>dict\<close> keeps its
  entries in insertion order and its keys are distinct; it is kept as an association list.
\<close>

datatype json =
    JNull
  | JBool bool
  | JInt int
  | JFloat pyfloat
  | JStr string
  | JArr "json list"
  | JObj "(string \<times> json) list"

type_synonym py_dict = "(string \<times> json) list"

text \<open>
  \<open>v[key]\<close> with a string key: \<open>KeyError\<close> on a dict without the key, \<open>TypeError\<close> on
  everything that is not a dict (a list or a string wants integer indices, the other values
  are not subscriptable).
\<close>

fun py_getitem :: "json \<Rightarrow> string \<Rightarrow> py_error + json" where
  "py_getitem (JObj d) key =
     (case map_of d key of None \<Rightarrow> Inl (KeyError key) | Some x \<Rightarrow> Inr x)"
| "py_getitem v key = Inl TypeError"

text \<open>\<open>v.items()\<close>: only a dict has the method.\<close>

fun py_items :: "json \<Rightarrow> py_error + py_dict" where
  "py_items (JObj d) = Inr d"
| "py_items v = Inl AttributeError"

text \<open>\<open>v.get(key, default)\<close>: only a dict has the method.\<close>

fun py_get :: "json \<Rightarrow> string \<Rightarrow> json \<Rightarrow> py_error + json" where
  "py_get (JObj d) key dflt =
     Inr (case map_of d key of None \<Rightarrow> dflt | Some x \<Rightarrow> x)"
| "py_get v key dflt = Inl AttributeError"

text \<open>The truth value that \<open>if v:\<close> tests.\<close>

fun py_truthy :: "json \<Rightarrow> bool" where
  "py_truthy JNull = False"
| "py_truthy (JBool b) = b"
| "py_truthy (JInt i) = (i \<noteq> 0)"
| "py_truthy (JFloat f) = (f \<noteq> Fin 0)"
| "py_truthy (JStr s) = (s \<noteq> [])"
| "py_truthy (JArr xs) = (xs \<noteq> [])"
| "py_truthy (JObj d) = (d \<noteq> [])"

text \<open>
  \<open>str(v)\<close>, as an f-string applies it: a string is itself, and for every other value of
  these types \<open>str\<close> is \<open>repr\<close>, the interpreter's built-in, which is a parameter here.
\<close>

fun py_str :: "(json \<Rightarrow> string) \<Rightarrow> json \<Rightarrow> string" where
  "py_str repr (JStr s) = s"
| "py_str repr v = repr v"

text \<open>\<open>str\<close> of an optional string: \<open>None\<close> is printed as \<open>None\<close>.\<close>

fun str_optional :: "string option \<Rightarrow> string" where
  "str_optional None = ''None''"
| "str_optional (Some s) = s"

subsection \<open>The SDK's request and result objects\<close>

datatype deployment_mode = Incremental | Complete

record deployment_properties =
  mode :: deployment_mode
  template :: json
  parameters :: py_dict

datatype deployment = Deployment (properties: deployment_properties)

record deployment_properties_extended =
  provisioning_state :: "string option"
  outputs :: json

text \<open>The result of the operation; its \<open>properties\<close> attribute is optional in the SDK.\<close>

datatype deployment_extended = DeploymentExtended "deployment_properties_extended option"

fun result_properties :: "deployment_extended \<Rightarrow> py_error + deployment_properties_extended" where
  "result_properties (DeploymentExtended None) = Inl AttributeError"
| "result_properties (DeploymentExtended (Some p)) = Inr p"

text \<open>The poller that \<open>begin_create_or_update\<close> returns: what its \<open>result()\<close> will give.\<close>

datatype lro_poller = LROPoller (poller_result: "py_error + deployment_extended")

record completed_process =
  returncode :: int
  stdout :: string
  stderr :: string

subsection \<open>The world outside of the script\<close>

text \<open>
  Everything that the script asks of its collaborators, each answer being a value or a raised
  exception: the environment, the two SDK constructors, the subprocess, the JSON parser, the
  parameters file (opened and parsed by \<open>json.load\<close>), the remote submission, and \<open>repr\<close>.
\<close>

record world =
  getenv :: "string \<Rightarrow> string option"
  azure_cli_credential :: "py_error + unit"
  resource_management_client :: "string \<Rightarrow> py_error + unit"
  subprocess_run :: "string list \<Rightarrow> py_error + completed_process"
  json_loads :: "string \<Rightarrow> py_error + json"
  json_load_file :: "string \<Rightarrow> py_error + json"
  begin_create_or_update :: "string \<Rightarrow> string \<Rightarrow> deployment \<Rightarrow> py_error + lro_poller"
  py_repr :: "json \<Rightarrow> string"

text \<open>What the script does to the world, in order.\<close>

datatype stream = Stdout | Stderr

datatype event =
    Print stream string
  | AzureCliCredential
  | ResourceManagementClient string
  | SubprocessRun "string list"
  | OpenFile string
  | BeginCreateOrUpdate string string deployment
  | OperationResult

text \<open>
  A computation either goes on with a value, or stops: by \<open>sys.exit\<close> or by an exception
  that nothing catches. It extends the list of the events so far.
\<close>

datatype abort = SysExit int | Raise py_error

type_synonym 'a io = "event list \<Rightarrow> (abort + 'a) \<times> event list"

definition io_return :: "'a \<Rightarrow> 'a io" where
  "io_return x = (\<lambda>t. (Inr x, t))"

definition io_bind :: "'a io \<Rightarrow> ('a \<Rightarrow> 'b io) \<Rightarrow> 'b io" where
  "io_bind m f = (\<lambda>t. case m t of (Inl a, t') \<Rightarrow> (Inl a, t') | (Inr x, t') \<Rightarrow> f x t')"

definition sys_exit :: "int \<Rightarrow> 'a io" where
  "sys_exit n = (\<lambda>t. (Inl (SysExit n), t))"

text \<open>A value that a pure Python expression computes, or the exception it raises.\<close>

definition lift :: "py_error + 'a \<Rightarrow> 'a io" where
  "lift r = (\<lambda>t. case r of Inl e \<Rightarrow> (Inl (Raise e), t) | Inr x \<Rightarrow> (Inr x, t))"

text \<open>A call to a collaborator: the event is recorded, then the answer is taken.\<close>

definition call :: "event \<Rightarrow> py_error + 'a \<Rightarrow> 'a io" where
  "call ev r = (\<lambda>t. lift r (t @ [ev]))"

text \<open>\<open>print(text, file=...)\<close>; the stream receives the text and a newline.\<close>

definition print_to :: "stream \<Rightarrow> string \<Rightarrow> unit io" where
  "print_to s text = (\<lambda>t. (Inr (), t @ [Print s text]))"

text \<open>The exit status of the process: an uncaught exception ends the interpreter with 1.\<close>

fun exit_status :: "abort + unit \<Rightarrow> int" where
  "exit_status (Inr u) = 0"
| "exit_status (Inl (SysExit n)) = n"
| "exit_status (Inl (Raise e)) = 1"

text \<open>The texts printed to a stream, and the characters that the stream has received.\<close>

fun printed :: "stream \<Rightarrow> event list \<Rightarrow> string list" where
  "printed s [] = []"
| "printed s (Print s' text # t) = (if s' = s then text # printed s t else printed s t)"
| "printed s (ev # t) = printed s t"

definition stream_text :: "stream \<Rightarrow> event list \<Rightarrow> string" where
  "stream_text s t = concat (map (\<lambda>text. text @ [CHR 0x0A]) (printed s t))"

fun is_submission :: "event \<Rightarrow> bool" where
  "is_submission (BeginCreateOrUpdate rg name d) = True"
| "is_submission ev = False"

fun is_print :: "event \<Rightarrow> bool" where
  "is_print (Print s text) = True"
| "is_print ev = False"

subsection \<open>The functions of the script\<close>

definition bicep_command :: "string \<Rightarrow> string list" where
  "bicep_command bicep_path = [''az'', ''bicep'', ''build'', ''--file'', bicep_path, ''--stdout'']"

definition compile_bicep :: "world \<Rightarrow> string \<Rightarrow> json io" where
  "compile_bicep w bicep_path =
     io_bind (print_to Stdout (''Compiling '' @ bicep_path @ ''...'')) (\<lambda>_.
     io_bind (call (SubprocessRun (bicep_command bicep_path))
                   (subprocess_run w (bicep_command bicep_path))) (\<lambda>result.
     if returncode result \<noteq> 0 then
       io_bind (print_to Stderr (''Error compiling Bicep: '' @ stderr result)) (\<lambda>_.
       sys_exit 1)
     else lift (json_loads w (stdout result))))"

text \<open>
  The comprehension \<open>{k: v["value"] for k, v in items}\<close>: the entries in order, each stored
  under its key in the dict built so far; the first failing subscript ends it.
\<close>

fun extract_values :: "py_dict \<Rightarrow> py_dict \<Rightarrow> py_error + py_dict" where
  "extract_values acc [] = Inr acc"
| "extract_values acc ((k, v) # rest) =
     (case py_getitem v ''value'' of
        Inl e \<Rightarrow> Inl e
      | Inr x \<Rightarrow> extract_values (AList.update k x acc) rest)"

definition parameter_values :: "json \<Rightarrow> py_error + py_dict" where
  "parameter_values params =
     (case py_getitem params ''parameters'' of
        Inl e \<Rightarrow> Inl e
      | Inr ps \<Rightarrow>
          (case py_items ps of
             Inl e \<Rightarrow> Inl e
           | Inr items \<Rightarrow> extract_values [] items))"

definition load_parameters :: "world \<Rightarrow> string \<Rightarrow> py_dict io" where
  "load_parameters w param_file =
     io_bind (call (OpenFile param_file) (json_load_file w param_file)) (\<lambda>params.
     lift (parameter_values params))"

text \<open>The comprehension \<open>{k: {"value": v} for k, v in parameters.items()}\<close> of \<open>main\<close>.\<close>

fun wrap_values :: "py_dict \<Rightarrow> py_dict \<Rightarrow> py_dict" where
  "wrap_values acc [] = acc"
| "wrap_values acc ((k, v) # rest) =
     wrap_values (AList.update k (JObj [(''value'', v)]) acc) rest"

text \<open>The loop over \<open>result.properties.outputs.items()\<close> at the end of \<open>main\<close>.\<close>

fun print_outputs :: "(json \<Rightarrow> string) \<Rightarrow> py_dict \<Rightarrow> unit io" where
  "print_outputs repr [] = io_return ()"
| "print_outputs repr ((key, v) # rest) =
     io_bind (lift (py_get v ''value'' (JStr ''N/A''))) (\<lambda>x.
     io_bind (print_to Stdout (''  '' @ key @ '': '' @ py_str repr x)) (\<lambda>_.
     print_outputs repr rest))"

text \<open>
  \<open>main\<close>, with the four module constants as arguments. The check mark of the completion
  line is written as its three UTF-8 bytes: the streams are taken to encode UTF-8 and to
  accept every write.
\<close>

definition deployment_name :: string where
  "deployment_name = ''infrastructure-deployment''"

definition completed_line :: "string option \<Rightarrow> string" where
  "completed_line state =
     [CHR 0x0A, CHR 0xE2, CHR 0x9C, CHR 0x93] @ '' Deployment completed: '' @ str_optional state"

definition starting_line :: "string \<Rightarrow> string" where
  "starting_line rg =
     ''Starting deployment '' @ [CHR 0x27] @ deployment_name @ [CHR 0x27]
       @ '' to resource group '' @ [CHR 0x27] @ rg @ [CHR 0x27] @ ''...''"

definition main :: "world \<Rightarrow> string \<Rightarrow> string \<Rightarrow> string \<Rightarrow> string \<Rightarrow> unit io" where
  "main w RESOURCE_GROUP SUBSCRIPTION_ID BICEP_FILE PARAMETERS_FILE =
     io_bind (print_to Stdout ''Initializing Azure deployment...'') (\<lambda>_.
     io_bind (call AzureCliCredential (azure_cli_credential w)) (\<lambda>credential.
     io_bind (call (ResourceManagementClient SUBSCRIPTION_ID)
                   (resource_management_client w SUBSCRIPTION_ID)) (\<lambda>client.
     io_bind (compile_bicep w BICEP_FILE) (\<lambda>tmpl.
     io_bind (load_parameters w PARAMETERS_FILE) (\<lambda>params.
     let dp = \<lparr> mode = Incremental, template = tmpl, parameters = wrap_values [] params \<rparr>;
         d = Deployment dp
     in
     io_bind (print_to Stdout (starting_line RESOURCE_GROUP)) (\<lambda>_.
     io_bind (call (BeginCreateOrUpdate RESOURCE_GROUP deployment_name d)
                   (begin_create_or_update w RESOURCE_GROUP deployment_name d)) (\<lambda>operation.
     io_bind (print_to Stdout ''Deployment started. Waiting for completion...'') (\<lambda>_.
     io_bind (call OperationResult (poller_result operation)) (\<lambda>result.
     io_bind (lift (result_properties result)) (\<lambda>props.
     io_bind (print_to Stdout (completed_line (provisioning_state props))) (\<lambda>_.
     if py_truthy (outputs props) then
       io_bind (print_to Stdout (CHR 0x0A # ''Outputs:'')) (\<lambda>_.
       io_bind (lift (py_items (outputs props))) (\<lambda>items.
       print_outputs (py_repr w) items))
     else io_return ())))))))))))"

text \<open>
  The module, top to bottom: the four constants from the environment, the check of the
  subscription identifier (\<open>not\<close> holds of \<open>None\<close> and of the empty string), the
  definitions, and the call of \<open>main\<close> when the module runs as a script, that is when its
  \<open>__name__\<close> is \<open>__main__\<close>.
\<close>

definition getenv_default :: "world \<Rightarrow> string \<Rightarrow> string \<Rightarrow> string" where
  "getenv_default w name dflt = (case getenv w name of None \<Rightarrow> dflt | Some v \<Rightarrow> v)"

definition deploy_py :: "world \<Rightarrow> string \<Rightarrow> unit io" where
  "deploy_py w name =
     (let RESOURCE_GROUP = getenv_default w ''AZURE_RESOURCE_GROUP'' ''rg-agentic-waf'';
          SUBSCRIPTION_ID = getenv w ''AZURE_SUBSCRIPTION_ID'';
          BICEP_FILE = getenv_default w ''BICEP_TEMPLATE_FILE'' ''infra/bicep/main.bicep'';
          PARAMETERS_FILE =
            getenv_default w ''BICEP_PARAMETERS_FILE'' ''infra/bicep/main.parameters.json''
      in case SUBSCRIPTION_ID of
           None \<Rightarrow>
             io_bind (print_to Stderr
               ''Error: AZURE_SUBSCRIPTION_ID environment variable is required'') (\<lambda>_.
             io_bind (print_to Stderr
               ''Set it with: export AZURE_SUBSCRIPTION_ID=<your-subscription-id>'') (\<lambda>_.
             sys_exit 1))
         | Some sid \<Rightarrow>
             if sid = [] then
               io_bind (print_to Stderr
                 ''Error: AZURE_SUBSCRIPTION_ID environment variable is required'') (\<lambda>_.
               io_bind (print_to Stderr
                 ''Set it with: export AZURE_SUBSCRIPTION_ID=<your-subscription-id>'') (\<lambda>_.
               sys_exit 1))
             else if name = ''__main__'' then
               main w RESOURCE_GROUP sid BICEP_FILE PARAMETERS_FILE
             else io_return ())"

text \<open>A run of the script as a program, from no events: its end and what it did.\<close>

definition run_deploy :: "world \<Rightarrow> (abort + unit) \<times> event list" where
  "run_deploy w = deploy_py w ''__main__'' []"

subsection \<open>Mocked worlds\<close>

text \<open>
  The parameters document of the specification's example, and a world in which every
  collaborator succeeds and the remote client answers with the state \<open>Succeeded\<close> and the
  single output \<open>url\<close>.
\<close>

definition example_parameters_document :: json where
  "example_parameters_document =
     JObj [(''parameters'',
            JObj [(''a'', JObj [(''value'', JInt 1)]),
                  (''b'', JObj [(''value'', JStr ''x'')])])]"

definition mock_result :: deployment_extended where
  "mock_result =
     DeploymentExtended (Some
       \<lparr> provisioning_state = Some ''Succeeded'',
         outputs = JObj [(''url'', JObj [(''value'', JStr ''http://example'')])] \<rparr>)"

definition mock_world :: world where
  "mock_world =
     \<lparr> getenv = (\<lambda>name. if name = ''AZURE_SUBSCRIPTION_ID'' then Some ''sub-0001'' else None),
       azure_cli_credential = Inr (),
       resource_management_client = (\<lambda>sid. Inr ()),
       subprocess_run = (\<lambda>args. Inr \<lparr> returncode = 0, stdout = ''{}'', stderr = [] \<rparr>),
       json_loads = (\<lambda>text. Inr (JObj [])),
       json_load_file = (\<lambda>path. Inr example_parameters_document),
       begin_create_or_update = (\<lambda>rg name d. Inr (LROPoller (Inr mock_result))),
       py_repr = (\<lambda>v. ''<repr>'') \<rparr>"

text \<open>The same world without the subscription identifier, and with a failing compiler.\<close>

definition mock_world_unset :: world where
  "mock_world_unset = mock_world \<lparr> getenv := (\<lambda>name. None) \<rparr>"

definition mock_world_bicep_error :: world where
  "mock_world_bicep_error =
     mock_world \<lparr> subprocess_run :=
       (\<lambda>args. Inr \<lparr> returncode = 1, stdout = [], stderr = ''Error BCP018'' \<rparr>) \<rparr>"

text \<open>
  The mocked world with a parameters document as Azure writes them: a schema, a content
  version, and entries that carry more than their value.
\<close>

definition annotated_parameters_document :: json where
  "annotated_parameters_document =
     JObj [(''$schema'', JStr ''https://schema.management.azure.com/deploymentParameters.json''),
           (''contentVersion'', JStr ''1.0.0.0''),
           (''parameters'',
            JObj [(''a'', JObj [(''value'', JInt 1), (''type'', JStr ''int'')]),
                  (''b'', JObj [(''metadata'', JNull), (''value'', JStr ''x'')])])]"

definition mock_world_annotated :: world where
  "mock_world_annotated =
     mock_world \<lparr> json_load_file := (\<lambda>path. Inr annotated_parameters_document) \<rparr>"

subsection \<open>Predicates on computations\<close>

text \<open>
  A computation is quiet when it submits nothing, whatever the events so far. A computation
  submits at most once when, started after no submission, it either ends abnormally without
  a submission, or has made exactly one submission, under the fixed name, in incremental mode,
  to the given resource group.
\<close>

definition quiet :: "'a io \<Rightarrow> bool" where
  "quiet m = (\<forall>t. filter is_submission (snd (m t)) = filter is_submission t)"

definition submits_once :: "string \<Rightarrow> 'a io \<Rightarrow> bool" where
  "submits_once rg m =
     (\<forall>t. filter is_submission t = [] \<longrightarrow>
        (filter is_submission (snd (m t)) = [] \<and> (\<forall>x. fst (m t) \<noteq> Inr x))
        \<or> (\<exists>d. filter is_submission (snd (m t)) = [BeginCreateOrUpdate rg deployment_name d]
                \<and> mode (properties d) = Incremental))"

section \<open>Properties of the floats\<close>

text \<open>
  The exponent brackets the magnitude, and the rounding returns, when it returns a finite
  value, a multiple of the spacing at that exponent that is at most half a spacing away.
\<close>

lemma float_exponent_bounds_large:
  assumes "1 \<le> \<bar>x\<bar>"
  shows "pow2 (float_exponent x) \<le> \<bar>x\<bar> \<and> \<bar>x\<bar> < pow2 (float_exponent x + 1)"
proof -
  define n where "n = \<lfloor>\<bar>x\<bar>\<rfloor>"
  define b where "b = bitlen n"
  from assms have n1: "1 \<le> n" by (simp add: n_def)
  then have "0 < n" by simp
  from bitlen_bounds [OF this]
  have lo: "2 ^ nat (b - 1) \<le> n" and hi: "n < 2 ^ nat b" by (simp_all add: b_def)
  have b1: "1 \<le> b"
  proof (rule ccontr)
    assume "\<not> 1 \<le> b"
    then have "nat b = 0" by simp
    with hi n1 show False by simp
  qed
  have e: "float_exponent x = b - 1"
    using assms by (simp add: float_exponent_def Let_def n_def b_def)
  have "(of_int (2 ^ nat (b - 1)) :: rat) \<le> of_int n" using lo by (simp only: of_int_le_iff)
  also have "\<dots> \<le> \<bar>x\<bar>" by (simp add: n_def)
  finally have "2 ^ nat (b - 1) \<le> \<bar>x\<bar>" by simp
  moreover from b1 have "pow2 (b - 1) = 2 ^ nat (b - 1)" by (simp add: pow2_def)
  ultimately have low: "pow2 (b - 1) \<le> \<bar>x\<bar>" by simp
  have "\<bar>x\<bar> < of_int n + 1" unfolding n_def by linarith
  also have "\<dots> = of_int (n + 1)" by simp
  also have "\<dots> \<le> (of_int (2 ^ nat b) :: rat)"
  proof -
    from hi have "n + 1 \<le> 2 ^ nat b" by simp
    then show ?thesis by (simp only: of_int_le_iff)
  qed
  finally have "\<bar>x\<bar> < 2 ^ nat b" by simp
  moreover from b1 have "pow2 b = 2 ^ nat b" by (simp add: pow2_def)
  ultimately have high: "\<bar>x\<bar> < pow2 b" by simp
  from low high show ?thesis unfolding e by simp
qed

lemma float_exponent_bounds_small:
  assumes "x \<noteq> 0" and "\<not> 1 \<le> \<bar>x\<bar>"
  shows "pow2 (float_exponent x) \<le> \<bar>x\<bar> \<and> \<bar>x\<bar> < pow2 (float_exponent x + 1)"
proof -
  define a where "a = \<bar>x\<bar>"
  from assms have a0: "0 < a" and a1: "a < 1" by (simp_all add: a_def)
  define y where "y = 1 / a"
  from a0 a1 have y1: "1 < y" by (simp add: y_def)
  from a0 have ay: "a = 1 / y" by (simp add: y_def)
  define m where "m = \<lceil>y\<rceil> - 1"
  define k where "k = bitlen m"
  from y1 have "1 < \<lceil>y\<rceil>" by (simp add: less_ceiling_iff)
  then have m1: "1 \<le> m" by (simp add: m_def)
  then have "0 < m" by simp
  from bitlen_bounds [OF this]
  have lo: "2 ^ nat (k - 1) \<le> m" and hi: "m < 2 ^ nat k" by (simp_all add: k_def)
  have k1: "1 \<le> k"
  proof (rule ccontr)
    assume "\<not> 1 \<le> k"
    then have "nat k = 0" by simp
    with hi m1 show False by simp
  qed
  have e: "float_exponent x = - k"
    using assms(2) by (simp add: float_exponent_def Let_def a_def y_def m_def k_def)
  have "y \<le> of_int \<lceil>y\<rceil>" by simp
  also have "\<dots> = of_int (m + 1)" by (simp add: m_def)
  also have "\<dots> \<le> (of_int (2 ^ nat k) :: rat)"
  proof -
    from hi have "m + 1 \<le> 2 ^ nat k" by simp
    then show ?thesis by (simp only: of_int_le_iff)
  qed
  finally have yhi: "y \<le> 2 ^ nat k" by simp
  from y1 have ypos: "0 < y" by simp
  from yhi ypos have "1 / 2 ^ nat k \<le> 1 / y"
    using frac_le [of 1 1 y "2 ^ nat k"] by simp
  moreover from k1 have "pow2 (- k) = 1 / 2 ^ nat k" by (simp add: pow2_def)
  ultimately have low: "pow2 (- k) \<le> a" by (simp only: ay)
  have "(of_int (2 ^ nat (k - 1)) :: rat) \<le> of_int m" using lo by (simp only: of_int_le_iff)
  also have "\<dots> < y" unfolding m_def by linarith
  finally have ylow: "2 ^ nat (k - 1) < y" by simp
  have high: "a < pow2 (- k + 1)"
  proof (cases "k = 1")
    case True
    with a1 show ?thesis by (simp add: pow2_def)
  next
    case False
    with k1 have k2: "2 \<le> k" by simp
    have pos: "0 < (2::rat) ^ nat (k - 1)" by simp
    from ylow pos have "1 / y < 1 / 2 ^ nat (k - 1)"
      using frac_less2 [of 1 1 "2 ^ nat (k - 1)" y] by simp
    moreover from k2 have "pow2 (- k + 1) = 1 / 2 ^ nat (k - 1)" by (simp add: pow2_def)
    ultimately show ?thesis by (simp only: ay)
  qed
  from low high show ?thesis unfolding e a_def by simp
qed

lemma float_exponent_bounds:
  "x \<noteq> 0 \<Longrightarrow> pow2 (float_exponent x) \<le> \<bar>x\<bar> \<and> \<bar>x\<bar> < pow2 (float_exponent x + 1)"
  by (cases "1 \<le> \<bar>x\<bar>") (rule float_exponent_bounds_large float_exponent_bounds_small; assumption)+

lemma pow2_pos: "0 < pow2 e"
  by (simp add: pow2_def)

lemma round_half_even_near: "\<bar>of_int (round_half_even z) - z\<bar> \<le> 1 / 2"
proof -
  have "of_int \<lfloor>z\<rfloor> \<le> z" "z < of_int \<lfloor>z\<rfloor> + 1" by linarith+
  then show ?thesis
    by (auto simp: round_half_even_def Let_def)
qed

lemma fl_round_near:
  assumes "fl_round x = Fin v" and "x \<noteq> 0"
  defines "q \<equiv> pow2 (max (float_exponent x) (- 1022) - 52)"
  shows "\<exists>n. v = of_int n * q \<and> \<bar>v - x\<bar> \<le> q / 2"
proof -
  define n where "n = round_half_even (\<bar>x\<bar> / q)"
  have q0: "0 < q" by (simp add: q_def pow2_pos)
  from assms(1,2) have v: "v = sgn x * (of_int n * q)"
    by (simp add: fl_round_def Let_def n_def q_def split: if_splits)
  have x: "x = sgn x * \<bar>x\<bar>" by (simp add: sgn_mult_abs)
  have "\<bar>v - x\<bar> = \<bar>sgn x * (of_int n * q - \<bar>x\<bar>)\<bar>"
    by (subst x, subst v) (simp add: algebra_simps)
  also have "\<dots> = \<bar>of_int n * q - \<bar>x\<bar>\<bar>"
    using assms(2) by (simp add: abs_mult)
  also have "\<dots> = \<bar>of_int n - \<bar>x\<bar> / q\<bar> * q"
  proof -
    from q0 have "of_int n * q - \<bar>x\<bar> = (of_int n - \<bar>x\<bar> / q) * q"
      by (simp add: field_simps)
    with q0 show ?thesis by (simp add: abs_mult)
  qed
  also have "\<dots> \<le> 1 / 2 * q"
    using round_half_even_near [of "\<bar>x\<bar> / q"] q0
    by (intro mult_right_mono) (simp_all add: n_def)
  finally have near: "\<bar>v - x\<bar> \<le> q / 2" by simp
  have "v = of_int (if 0 < x then n else - n) * q"
    using assms(2) by (simp add: v sgn_if)
  with near show ?thesis by blast
qed

section \<open>Properties of the Performance Tracker\<close>

subsection \<open>The conversion to an integer\<close>

lemma py_int_trunc: "py_int (Fin x) = Inr (trunc_toward_zero x)"
  by (simp add: trunc_toward_zero_def ceiling_def)

text \<open>
  \<open>trunc_toward_zero\<close> is the truncation toward zero: the one integer that is no larger in
  magnitude than \<open>x\<close>, less than one away from it, and not of the opposite sign.
\<close>

lemma trunc_toward_zero_unique:
  assumes "\<bar>of_int n\<bar> \<le> \<bar>x\<bar>" and "\<bar>x\<bar> < \<bar>of_int n\<bar> + 1" and "0 \<le> of_int n * x"
  shows "trunc_toward_zero x = n"
proof (cases "0 \<le> x")
  case True
  have "0 \<le> n"
  proof (rule ccontr)
    assume "\<not> 0 \<le> n"
    then have neg: "n < 0" by simp
    then have "(of_int n :: rat) < 0" by simp
    with assms(3) have "x \<le> 0" by (simp add: zero_le_mult_iff)
    with True have "x = 0" by simp
    with assms(1) have "n = 0" by simp
    with neg show False by simp
  qed
  with True assms(1,2) have "of_int n \<le> x" "x < of_int n + 1" by simp_all
  then have "\<lfloor>x\<rfloor> = n" by (simp add: floor_unique)
  with True show ?thesis by (simp add: trunc_toward_zero_def)
next
  case False
  then have xneg: "x < 0" by simp
  have "n \<le> 0"
  proof (rule ccontr)
    assume "\<not> n \<le> 0"
    then have "(0::rat) < of_int n" by simp
    with assms(3) xneg show False by (simp add: zero_le_mult_iff)
  qed
  with xneg assms(1,2) have "x \<le> of_int n" "of_int n - 1 < x" by simp_all
  then have "\<lceil>x\<rceil> = n" by (simp add: ceiling_unique)
  with False show ?thesis by (simp add: trunc_toward_zero_def)
qed

lemma trunc_toward_zero_bounds:
  "\<bar>of_int (trunc_toward_zero x)\<bar> \<le> \<bar>x\<bar> \<and> \<bar>x\<bar> < \<bar>of_int (trunc_toward_zero x)\<bar> + 1
     \<and> 0 \<le> of_int (trunc_toward_zero x) * x"
proof (cases "0 \<le> x")
  case True
  then have "0 \<le> \<lfloor>x\<rfloor>" by simp
  moreover have "of_int \<lfloor>x\<rfloor> \<le> x" "x < of_int \<lfloor>x\<rfloor> + 1" by linarith+
  ultimately show ?thesis using True
    by (simp add: trunc_toward_zero_def)
next
  case False
  then have "\<lceil>x\<rceil> \<le> 0" by (simp add: ceiling_le_zero)
  moreover have "x \<le> of_int \<lceil>x\<rceil>" "of_int \<lceil>x\<rceil> < x + 1" by linarith+
  ultimately show ?thesis using False
    by (simp add: trunc_toward_zero_def mult_nonpos_nonpos)
qed

subsection \<open>When the tracker returns\<close>

text \<open>
  A record is returned exactly when the product of the elapsed time and 1000 is finite; a NaN
  as \<open>start_time\<close> makes \<open>int\<close> raise.
\<close>

lemma track_performance_returns_iff:
  "(\<exists>r. track_performance now T = Inr r) \<longleftrightarrow> (\<exists>v. fl_mul (fl_sub now T) (Fin 1000) = Fin v)"
  by (cases "fl_mul (fl_sub now T) (Fin 1000)") (auto simp: track_performance_def)

lemma track_performance_nan: "track_performance now NaN = Inl ValueError"
  by (cases now) (simp_all add: track_performance_def)

subsection \<open>Some calls\<close>

lemma run_negative:
  "track_performance (Fin 100) (Fin (100 + 3 / 2048)) =
     Inr \<lparr> total_execution_time_ms = - 1, start_time = Fin (100 + 3 / 2048),
           end_time = Fin 100, status = ''completed'', workflow_version = ''v1.0'' \<rparr>"
  by code_simp

lemma product_negative:
  "fl_mul (fl_sub (Fin 100) (Fin (100 + 3 / 2048))) (Fin 1000) = Fin (- 375 / 256)"
  by code_simp

lemma run_forward:
  "track_performance (Fin 200) (Fin 100) =
     Inr \<lparr> total_execution_time_ms = 100000, start_time = Fin 100,
           end_time = Fin 200, status = ''completed'', workflow_version = ''v1.0'' \<rparr>"
  by code_simp

lemma run_later:
  "track_performance (Fin 300) (Fin 100) =
     Inr \<lparr> total_execution_time_ms = 200000, start_time = Fin 100,
           end_time = Fin 300, status = ''completed'', workflow_version = ''v1.0'' \<rparr>"
  by code_simp

text \<open>
  The product is a float product, rounded as every float operation is. With the clock at
  \<open>0.29\<close> (the float next to it) and \<open>start_time\<close> \<open>0.0\<close>, the product is rounded up to
  \<open>290.0\<close> and the result is \<open>290\<close>, where the exact product of the two float values
  lies just below \<open>290\<close>.
\<close>

lemma rounded_product_example:
  "track_performance (Fin (5224175567749775 / 2 ^ 54)) (Fin 0) =
     Inr \<lparr> total_execution_time_ms = 290, start_time = Fin 0,
           end_time = Fin (5224175567749775 / 2 ^ 54), status = ''completed'',
           workflow_version = ''v1.0'' \<rparr>
   \<and> trunc_toward_zero (5224175567749775 / 2 ^ 54 * 1000) = 289"
  by code_simp

subsection \<open>The record\<close>

text \<open>
  C1. Whenever \<open>track_performance\<close> returns a record for a float \<open>start_time\<close> \<open>T\<close>, the
  field \<open>end_time\<close> is the clock value sampled during the call, and
  \<open>total_execution_time_ms\<close> is the truncation toward zero of the float product
  \<open>(end_time - T) * 1000\<close>.
\<close>

theorem elapsed_ms_is_truncated_product:
  "track_performance now T = Inr r \<Longrightarrow>
     end_time r = now \<and>
     (\<exists>v. fl_mul (fl_sub (end_time r) T) (Fin 1000) = Fin v \<and>
          total_execution_time_ms r = trunc_toward_zero v)"
  by (cases "fl_mul (fl_sub now T) (Fin 1000)")
     (auto simp: track_performance_def trunc_toward_zero_def ceiling_def)

theorem elapsed_ms_is_truncated_product_witness:
  "track_performance (Fin 100) (Fin (100 + 3 / 2048)) =
     Inr \<lparr> total_execution_time_ms = - 1, start_time = Fin (100 + 3 / 2048),
           end_time = Fin 100, status = ''completed'', workflow_version = ''v1.0'' \<rparr>
   \<and> fl_mul (fl_sub (Fin 100) (Fin (100 + 3 / 2048))) (Fin 1000) = Fin (- 375 / 256)
   \<and> trunc_toward_zero (- 375 / 256) = - 1"
  using elapsed_ms_is_truncated_product [OF run_negative] run_negative product_negative
  by simp

text \<open>
  C5. That \<open>end_time \<ge> start_time\<close> holds of every returned record is not so: nothing
  in the function compares the two, and a \<open>start_time\<close> later than the sampled clock is
  returned as it is, with a negative elapsed time.
\<close>

theorem end_time_not_before_start_counterexample:
  "track_performance (Fin 100) (Fin 200) =
     Inr \<lparr> total_execution_time_ms = - 100000, start_time = Fin 200,
           end_time = Fin 100, status = ''completed'', workflow_version = ''v1.0'' \<rparr>
   \<and> \<not> fl_le (Fin 200) (Fin 100)"
  by code_simp

text \<open>
  C5, amended. For every \<open>start_time\<close> \<open>T\<close> that is at most the clock value sampled during
  the call, the returned record satisfies \<open>end_time \<ge> start_time\<close>.
\<close>

theorem end_time_not_before_start:
  "fl_le T now \<Longrightarrow> track_performance now T = Inr r \<Longrightarrow> fl_le (start_time r) (end_time r)"
  by (auto simp: track_performance_def split: sum.splits)

theorem end_time_not_before_start_witness:
  "fl_le (Fin 100) (Fin 200)
   \<and> track_performance (Fin 200) (Fin 100) =
       Inr \<lparr> total_execution_time_ms = 100000, start_time = Fin 100,
             end_time = Fin 200, status = ''completed'', workflow_version = ''v1.0'' \<rparr>
   \<and> fl_le (start_time \<lparr> total_execution_time_ms = 100000, start_time = Fin 100,
             end_time = Fin 200, status = ''completed'', workflow_version = ''v1.0'' \<rparr>)
           (end_time \<lparr> total_execution_time_ms = 100000, start_time = Fin 100,
             end_time = Fin 200, status = ''completed'', workflow_version = ''v1.0'' \<rparr>)"
proof -
  have le: "fl_le (Fin 100) (Fin 200)" by simp
  from end_time_not_before_start [OF le run_forward] le run_forward show ?thesis by simp
qed

text \<open>
  C6. Every returned record has the status \<open>completed\<close> and the workflow version \<open>v1.0\<close>.
\<close>

theorem status_and_version_fixed:
  "track_performance now T = Inr r \<Longrightarrow> status r = ''completed'' \<and> workflow_version r = ''v1.0''"
  by (auto simp: track_performance_def split: sum.splits)

theorem status_and_version_fixed_witness:
  "track_performance (Fin 200) (Fin 100) =
     Inr \<lparr> total_execution_time_ms = 100000, start_time = Fin 100,
           end_time = Fin 200, status = ''completed'', workflow_version = ''v1.0'' \<rparr>
   \<and> status \<lparr> total_execution_time_ms = 100000, start_time = Fin 100,
           end_time = Fin 200, status = ''completed'', workflow_version = ''v1.0'' \<rparr>
       = ''completed''
   \<and> workflow_version \<lparr> total_execution_time_ms = 100000, start_time = Fin 100,
           end_time = Fin 200, status = ''completed'', workflow_version = ''v1.0'' \<rparr>
       = ''v1.0''"
  using status_and_version_fixed [OF run_forward] run_forward by simp

text \<open>
  C7. Two calls with the same \<open>start_time\<close> and different clock values return records that
  agree on \<open>status\<close>, \<open>workflow_version\<close> and \<open>start_time\<close>: the second record is the first
  one with \<open>end_time\<close> and \<open>total_execution_time_ms\<close> replaced.
\<close>

theorem reruns_differ_only_in_clock_fields:
  "track_performance now1 T = Inr r1 \<Longrightarrow> track_performance now2 T = Inr r2 \<Longrightarrow>
     r2 = r1 \<lparr> total_execution_time_ms := total_execution_time_ms r2, end_time := end_time r2 \<rparr>
     \<and> status r1 = status r2 \<and> workflow_version r1 = workflow_version r2
     \<and> start_time r1 = start_time r2"
  by (auto simp: track_performance_def split: sum.splits)

theorem reruns_differ_only_in_clock_fields_witness:
  "track_performance (Fin 200) (Fin 100) =
     Inr \<lparr> total_execution_time_ms = 100000, start_time = Fin 100,
           end_time = Fin 200, status = ''completed'', workflow_version = ''v1.0'' \<rparr>
   \<and> track_performance (Fin 300) (Fin 100) =
     Inr \<lparr> total_execution_time_ms = 200000, start_time = Fin 100,
           end_time = Fin 300, status = ''completed'', workflow_version = ''v1.0'' \<rparr>
   \<and> \<lparr> total_execution_time_ms = 200000, start_time = Fin 100,
           end_time = Fin 300, status = ''completed'', workflow_version = ''v1.0'' \<rparr>
     = \<lparr> total_execution_time_ms = 100000, start_time = Fin 100,
           end_time = Fin 200, status = ''completed'', workflow_version = ''v1.0'' \<rparr>
       \<lparr> total_execution_time_ms := 200000, end_time := Fin 300 \<rparr>"
  using reruns_differ_only_in_clock_fields [OF run_forward run_later] run_forward run_later
  by simp

section \<open>Properties of the Deployment Driver\<close>

subsection \<open>Running the computations\<close>

lemma io_bind_print [simp]: "io_bind (print_to s text) f t = f () (t @ [Print s text])"
  by (simp add: io_bind_def print_to_def)

lemma io_bind_call_ok [simp]: "io_bind (call ev (Inr v)) f t = f v (t @ [ev])"
  by (simp add: io_bind_def call_def lift_def)

lemma io_bind_call_raise [simp]: "io_bind (call ev (Inl e)) f t = (Inl (Raise e), t @ [ev])"
  by (simp add: io_bind_def call_def lift_def)

lemma io_bind_lift_ok [simp]: "io_bind (lift (Inr v)) f t = f v t"
  by (simp add: io_bind_def lift_def)

lemma io_bind_lift_raise [simp]: "io_bind (lift (Inl e)) f t = (Inl (Raise e), t)"
  by (simp add: io_bind_def lift_def)

lemma lift_ok [simp]: "lift (Inr v) t = (Inr v, t)"
  by (simp add: lift_def)

lemma lift_raise [simp]: "lift (Inl e) t = (Inl (Raise e), t)"
  by (simp add: lift_def)

lemma sys_exit_run [simp]: "sys_exit n t = (Inl (SysExit n), t)"
  by (simp add: sys_exit_def)

lemma io_return_run [simp]: "io_return x t = (Inr x, t)"
  by (simp add: io_return_def)

lemma printed_append [simp]: "printed s (t @ u) = printed s t @ printed s u"
  by (induction s t rule: printed.induct) simp_all

lemma io_bind_assoc [simp]:
  "io_bind (io_bind m g) f = io_bind m (\<lambda>x. io_bind (g x) f)"
  by (auto simp: io_bind_def fun_eq_iff split: prod.splits sum.splits)

lemma io_bind_sys_exit [simp]: "io_bind (sys_exit n) f t = (Inl (SysExit n), t)"
  by (simp add: io_bind_def sys_exit_def)

lemma io_bind_call: "io_bind (call ev r) f t =
    (case r of Inl e \<Rightarrow> (Inl (Raise e), t @ [ev]) | Inr v \<Rightarrow> f v (t @ [ev]))"
  by (cases r) simp_all

lemma io_bind_lift: "io_bind (lift r) f t =
    (case r of Inl e \<Rightarrow> (Inl (Raise e), t) | Inr v \<Rightarrow> f v t)"
  by (cases r) simp_all

subsection \<open>The missing subscription identifier\<close>

lemma missing_subscription_run:
  "getenv w ''AZURE_SUBSCRIPTION_ID'' = None \<Longrightarrow>
     deploy_py w name [] =
       (Inl (SysExit 1),
        [Print Stderr ''Error: AZURE_SUBSCRIPTION_ID environment variable is required'',
         Print Stderr ''Set it with: export AZURE_SUBSCRIPTION_ID=<your-subscription-id>''])"
  by (simp add: deploy_py_def)

lemma empty_subscription_run:
  "getenv w ''AZURE_SUBSCRIPTION_ID'' = Some [] \<Longrightarrow>
     deploy_py w name [] =
       (Inl (SysExit 1),
        [Print Stderr ''Error: AZURE_SUBSCRIPTION_ID environment variable is required'',
         Print Stderr ''Set it with: export AZURE_SUBSCRIPTION_ID=<your-subscription-id>''])"
  by (simp add: deploy_py_def)

text \<open>
  C2. With \<open>AZURE_SUBSCRIPTION_ID\<close> unset the module exits with status 1, the text written
  to stderr contains \<open>AZURE_SUBSCRIPTION_ID\<close>, and every event of the run is a print: no
  credential, no management client, no subprocess, no file, no submission. This holds whether
  the module is run as a script or imported.
\<close>

theorem missing_subscription_exits:
  assumes "getenv w ''AZURE_SUBSCRIPTION_ID'' = None"
  shows "exit_status (fst (deploy_py w name [])) = 1
    \<and> sublist ''AZURE_SUBSCRIPTION_ID'' (stream_text Stderr (snd (deploy_py w name [])))
    \<and> list_all is_print (snd (deploy_py w name []))
    \<and> printed Stdout (snd (deploy_py w name [])) = []"
proof -
  have "stream_text Stderr (snd (deploy_py w name [])) =
      ''Error: '' @ ''AZURE_SUBSCRIPTION_ID'' @
      '' environment variable is required'' @ [CHR 0x0A] @
      ''Set it with: export AZURE_SUBSCRIPTION_ID=<your-subscription-id>'' @ [CHR 0x0A]"
    by (simp add: missing_subscription_run [OF assms] stream_text_def)
  then have "sublist ''AZURE_SUBSCRIPTION_ID'' (stream_text Stderr (snd (deploy_py w name [])))"
    by (simp only: sublist_appendI)
  then show ?thesis
    by (simp add: missing_subscription_run [OF assms])
qed

subsection \<open>The failing compilation\<close>

lemma compile_failure_run:
  assumes "getenv w ''AZURE_SUBSCRIPTION_ID'' = Some sid" and "sid \<noteq> []"
    and "azure_cli_credential w = Inr ()"
    and "resource_management_client w sid = Inr ()"
    and "subprocess_run w
           (bicep_command (getenv_default w ''BICEP_TEMPLATE_FILE'' ''infra/bicep/main.bicep''))
         = Inr cp"
    and "returncode cp \<noteq> 0"
  shows "run_deploy w =
    (Inl (SysExit 1),
     [Print Stdout ''Initializing Azure deployment...'',
      AzureCliCredential,
      ResourceManagementClient sid,
      Print Stdout (''Compiling ''
        @ getenv_default w ''BICEP_TEMPLATE_FILE'' ''infra/bicep/main.bicep'' @ ''...''),
      SubprocessRun
        (bicep_command (getenv_default w ''BICEP_TEMPLATE_FILE'' ''infra/bicep/main.bicep'')),
      Print Stderr (''Error compiling Bicep: '' @ stderr cp)])"
  using assms by (simp add: run_deploy_def deploy_py_def main_def compile_bicep_def Let_def)

text \<open>
  C3. When the subprocess \<open>az bicep build\<close> returns a non-zero status, the run exits with
  status 1, the one text written to stderr is \<open>Error compiling Bicep: \<close> followed by the
  tool's stderr, and \<open>begin_create_or_update\<close> is never called.
\<close>

theorem compile_failure_exits:
  assumes "getenv w ''AZURE_SUBSCRIPTION_ID'' = Some sid" and "sid \<noteq> []"
    and "azure_cli_credential w = Inr ()"
    and "resource_management_client w sid = Inr ()"
    and "subprocess_run w
           (bicep_command (getenv_default w ''BICEP_TEMPLATE_FILE'' ''infra/bicep/main.bicep''))
         = Inr cp"
    and "returncode cp \<noteq> 0"
  shows "exit_status (fst (run_deploy w)) = 1
    \<and> printed Stderr (snd (run_deploy w)) = [''Error compiling Bicep: '' @ stderr cp]
    \<and> sublist (stderr cp) (stream_text Stderr (snd (run_deploy w)))
    \<and> filter is_submission (snd (run_deploy w)) = []"
proof -
  note run = compile_failure_run [OF assms]
  have "stream_text Stderr (snd (run_deploy w)) =
      ''Error compiling Bicep: '' @ stderr cp @ [CHR 0x0A]"
    by (simp add: run stream_text_def)
  then have "sublist (stderr cp) (stream_text Stderr (snd (run_deploy w)))"
    by (simp only: sublist_appendI)
  then show ?thesis by (simp add: run)
qed

subsection \<open>Submissions\<close>

lemma quiet_return: "quiet (io_return x)"
  by (simp add: quiet_def)

lemma quiet_sys_exit: "quiet (sys_exit n)"
  by (simp add: quiet_def)

lemma quiet_lift: "quiet (lift r)"
  by (cases r) (simp_all add: quiet_def)

lemma quiet_print: "quiet (print_to s text)"
  by (simp add: quiet_def print_to_def)

lemma quiet_call: "\<not> is_submission ev \<Longrightarrow> quiet (call ev r)"
  by (cases r) (simp_all add: quiet_def call_def)

lemma quiet_bind: "quiet m \<Longrightarrow> (\<And>x. quiet (f x)) \<Longrightarrow> quiet (io_bind m f)"
  by (auto simp: quiet_def io_bind_def split: prod.splits sum.splits)
     (metis snd_conv)+

lemma quiet_if: "quiet a \<Longrightarrow> quiet b \<Longrightarrow> quiet (if c then a else b)"
  by simp

lemma quiet_print_outputs: "quiet (print_outputs repr items)"
proof (induction items)
  case Nil
  show ?case by (simp add: quiet_def)
next
  case (Cons kv items)
  obtain k v where kv: "kv = (k, v)" by (cases kv)
  show ?case unfolding kv print_outputs.simps
    by (intro quiet_bind quiet_lift quiet_print Cons.IH)
qed

lemmas quiet_intros = quiet_bind quiet_if quiet_return quiet_sys_exit quiet_lift quiet_print
  quiet_print_outputs

lemma submits_once_bind:
  assumes "quiet m" and "\<And>x. submits_once rg (f x)"
  shows "submits_once rg (io_bind m f)"
  unfolding submits_once_def
proof (intro allI impI)
  fix t :: "event list"
  assume t: "filter is_submission t = []"
  obtain r t' where mt: "m t = (r, t')" by (cases "m t")
  from assms(1) mt t have t': "filter is_submission t' = []"
    by (metis quiet_def snd_conv)
  show "(filter is_submission (snd (io_bind m f t)) = [] \<and> (\<forall>x. fst (io_bind m f t) \<noteq> Inr x))
      \<or> (\<exists>d. filter is_submission (snd (io_bind m f t)) = [BeginCreateOrUpdate rg deployment_name d]
              \<and> mode (properties d) = Incremental)"
  proof (cases r)
    case (Inl a)
    with mt t' show ?thesis by (simp add: io_bind_def)
  next
    case (Inr x)
    with mt have "io_bind m f t = f x t'" by (simp add: io_bind_def)
    with assms(2) [of x] t' show ?thesis by (simp add: submits_once_def)
  qed
qed

lemma submits_once_submit:
  assumes "\<And>x. quiet (f x)" and "mode (properties d) = Incremental"
  shows "submits_once rg
           (io_bind (call (BeginCreateOrUpdate rg deployment_name d) r) f)"
  unfolding submits_once_def
proof (intro allI impI)
  fix t :: "event list"
  assume t: "filter is_submission t = []"
  show "(filter is_submission
           (snd (io_bind (call (BeginCreateOrUpdate rg deployment_name d) r) f t)) = []
         \<and> (\<forall>x. fst (io_bind (call (BeginCreateOrUpdate rg deployment_name d) r) f t) \<noteq> Inr x))
      \<or> (\<exists>d'. filter is_submission
                 (snd (io_bind (call (BeginCreateOrUpdate rg deployment_name d) r) f t))
               = [BeginCreateOrUpdate rg deployment_name d']
              \<and> mode (properties d') = Incremental)"
  proof (cases r)
    case (Inl e)
    with t assms(2) show ?thesis by simp
  next
    case (Inr x)
    from assms(1) [of x]
    have "filter is_submission (snd (f x (t @ [BeginCreateOrUpdate rg deployment_name d])))
        = filter is_submission (t @ [BeginCreateOrUpdate rg deployment_name d])"
      by (simp add: quiet_def)
    with Inr t assms(2) show ?thesis by simp
  qed
qed

lemma quiet_compile_bicep: "quiet (compile_bicep w bicep_path)"
  unfolding compile_bicep_def
  by (intro quiet_intros quiet_call allI) simp_all

lemma quiet_load_parameters: "quiet (load_parameters w param_file)"
  unfolding load_parameters_def
  by (intro quiet_intros quiet_call allI) simp_all

lemma main_submits_once: "submits_once rg (main w rg sid bf pf)"
  unfolding main_def Let_def
  apply (rule submits_once_bind, rule quiet_print)
  apply (rule submits_once_bind, rule quiet_call, simp)
  apply (rule submits_once_bind, rule quiet_call, simp)
  apply (rule submits_once_bind, rule quiet_compile_bicep)
  apply (rule submits_once_bind, rule quiet_load_parameters)
  apply (rule submits_once_bind, rule quiet_print)
  apply (rule submits_once_submit)
   apply (intro quiet_intros quiet_call; simp)
  apply simp
  done

subsection \<open>The parameters\<close>

lemma update_fresh: "k \<notin> fst ` set al \<Longrightarrow> AList.update k v al = al @ [(k, v)]"
  by (induction al) auto

lemma extract_values_flat:
  assumes "list_all2 (\<lambda>(k, v) (k', x). k' = k \<and> (\<exists>d. v = JObj d \<and> map_of d ''value'' = Some x))
             ps flat"
    and "distinct (map fst ps)" and "fst ` set ps \<inter> fst ` set acc = {}"
  shows "extract_values acc ps = Inr (acc @ flat)"
  using assms
proof (induction ps flat arbitrary: acc rule: list_all2_induct)
  case Nil
  show ?case by simp
next
  case (Cons p ps q flat)
  obtain k v where p: "p = (k, v)" by (cases p)
  obtain k' x where q: "q = (k', x)" by (cases q)
  from Cons.hyps(1) p q obtain d where kk: "k' = k" and v: "v = JObj d"
    and x: "map_of d ''value'' = Some x" by auto
  from Cons.prems p have fresh: "k \<notin> fst ` set acc" by auto
  from Cons.prems p have "distinct (map fst ps)"
    and "fst ` set ps \<inter> fst ` set (acc @ [(k, x)]) = {}" by auto
  from Cons.IH [OF this]
  have "extract_values (acc @ [(k, x)]) ps = Inr ((acc @ [(k, x)]) @ flat)" .
  with fresh show ?case by (simp add: p q kk v x update_fresh)
qed

lemma flat_keys:
  assumes "list_all2 (\<lambda>(k, v) (k', x). k' = k \<and> (\<exists>d. v = JObj d \<and> map_of d ''value'' = Some x))
             ps flat"
  shows "map fst flat = map fst ps"
  using assms by (induction ps flat rule: list_all2_induct) auto

lemma wrap_values_map:
  assumes "distinct (map fst flat)" and "fst ` set flat \<inter> fst ` set acc = {}"
  shows "wrap_values acc flat = acc @ map (\<lambda>(k, x). (k, JObj [(''value'', x)])) flat"
  using assms
proof (induction flat arbitrary: acc)
  case Nil
  show ?case by simp
next
  case (Cons q flat)
  obtain k x where q: "q = (k, x)" by (cases q)
  from Cons.prems q have fresh: "k \<notin> fst ` set acc" by auto
  from Cons.prems q have "distinct (map fst flat)"
    and "fst ` set flat \<inter> fst ` set (acc @ [(k, JObj [(''value'', x)])]) = {}" by auto
  from Cons.IH [OF this] fresh show ?case by (simp add: q update_fresh)
qed

text \<open>
  C4. For a parameters document whose \<open>parameters\<close> entry is a dict of dicts that each carry
  a \<open>value\<close>, \<open>load_parameters\<close> opens the file and returns the flat dict that sends each
  name to its nested value, in the order of the document.
\<close>

theorem load_parameters_flat:
  assumes "json_load_file w param_file = Inr (JObj doc)"
    and "map_of doc ''parameters'' = Some (JObj ps)"
    and "distinct (map fst ps)"
    and "list_all2 (\<lambda>(k, v) (k', x). k' = k \<and> (\<exists>d. v = JObj d \<and> map_of d ''value'' = Some x))
           ps flat"
  shows "load_parameters w param_file t = (Inr flat, t @ [OpenFile param_file])"
proof -
  from assms(3,4) have "extract_values [] ps = Inr flat"
    using extract_values_flat [of ps flat "[]"] by simp
  with assms(1,2) show ?thesis
    by (simp add: load_parameters_def parameter_values_def)
qed

lemma example_flat:
  "list_all2 (\<lambda>(k, v) (k', x). k' = k \<and> (\<exists>d. v = JObj d \<and> map_of d ''value'' = Some x))
     [(''a'', JObj [(''value'', JInt 1)]), (''b'', JObj [(''value'', JStr ''x'')])]
     [(''a'', JInt 1), (''b'', JStr ''x'')]"
  by simp

theorem load_parameters_flat_witness:
  "load_parameters mock_world ''infra/bicep/main.parameters.json'' [] =
     (Inr [(''a'', JInt 1), (''b'', JStr ''x'')], [OpenFile ''infra/bicep/main.parameters.json''])"
proof -
  have loaded: "json_load_file mock_world ''infra/bicep/main.parameters.json'' =
      Inr (JObj [(''parameters'',
            JObj [(''a'', JObj [(''value'', JInt 1)]),
                  (''b'', JObj [(''value'', JStr ''x'')])])])"
    by (simp add: mock_world_def example_parameters_document_def)
  have params: "map_of [(''parameters'',
            JObj [(''a'', JObj [(''value'', JInt 1)]),
                  (''b'', JObj [(''value'', JStr ''x'')])])] ''parameters'' =
      Some (JObj [(''a'', JObj [(''value'', JInt 1)]), (''b'', JObj [(''value'', JStr ''x'')])])"
    by simp
  have keys: "distinct (map fst [(''a'', JObj [(''value'', JInt 1)]),
      (''b'', JObj [(''value'', JStr ''x'')])])"
    by simp
  from load_parameters_flat [OF loaded params keys example_flat, of "[]"] show ?thesis by simp
qed

lemma submissions_after_call:
  assumes "\<And>x. quiet (f x)"
  shows "filter is_submission (snd (io_bind (call ev r) f t)) = filter is_submission (t @ [ev])"
proof (cases r)
  case (Inl e)
  then show ?thesis by simp
next
  case (Inr x)
  with assms [of x] show ?thesis by (simp add: quiet_def)
qed

text \<open>
  C10. For a parameters document whose entries each carry a \<open>value\<close>, on a run that comes
  to the submission: \<open>load_parameters\<close> returns each name with its nested value, the
  re-wrapping of \<open>main\<close> gives for every name the dict with the single key \<open>value\<close>, and
  that is the \<open>parameters\<close> of the one request that the run submits, whatever the remote
  service answers. Whatever else an entry carried is not forwarded.
\<close>

theorem rewrap_keeps_only_values:
  assumes "getenv w ''AZURE_SUBSCRIPTION_ID'' = Some sid" and "sid \<noteq> []"
    and "rg = getenv_default w ''AZURE_RESOURCE_GROUP'' ''rg-agentic-waf''"
    and "bf = getenv_default w ''BICEP_TEMPLATE_FILE'' ''infra/bicep/main.bicep''"
    and "pf = getenv_default w ''BICEP_PARAMETERS_FILE'' ''infra/bicep/main.parameters.json''"
    and "azure_cli_credential w = Inr ()"
    and "resource_management_client w sid = Inr ()"
    and "subprocess_run w (bicep_command bf) = Inr cp" and "returncode cp = 0"
    and "json_loads w (stdout cp) = Inr tmpl"
    and "json_load_file w pf = Inr (JObj doc)"
    and "map_of doc ''parameters'' = Some (JObj ps)"
    and "distinct (map fst ps)"
    and "list_all2 (\<lambda>(k, v) (k', x). k' = k \<and> (\<exists>d. v = JObj d \<and> map_of d ''value'' = Some x))
           ps flat"
  shows "parameter_values (JObj doc) = Inr flat
     \<and> wrap_values [] flat = map (\<lambda>(k, x). (k, JObj [(''value'', x)])) flat
     \<and> map fst flat = map fst ps
     \<and> load_parameters w pf [] = (Inr flat, [OpenFile pf])
     \<and> filter is_submission (snd (run_deploy w)) =
         [BeginCreateOrUpdate rg deployment_name
            (Deployment \<lparr> mode = Incremental, template = tmpl,
               parameters = map (\<lambda>(k, x). (k, JObj [(''value'', x)])) flat \<rparr>)]"
proof -
  from assms(13,14) have ex: "extract_values [] ps = Inr flat"
    using extract_values_flat [of ps flat "[]"] by simp
  with assms(12) have pv: "parameter_values (JObj doc) = Inr flat"
    by (simp add: parameter_values_def)
  have keys: "map fst flat = map fst ps" by (rule flat_keys [OF assms(14)])
  with assms(13) have "distinct (map fst flat)" by simp
  then have wrap: "wrap_values [] flat = map (\<lambda>(k, x). (k, JObj [(''value'', x)])) flat"
    using wrap_values_map [of flat "[]"] by simp
  from assms(11) pv have load: "load_parameters w pf [] = (Inr flat, [OpenFile pf])"
    by (simp add: load_parameters_def)
  define request where "request =
    Deployment \<lparr> mode = Incremental, template = tmpl, parameters = wrap_values [] flat \<rparr>"
  define tail :: "lro_poller \<Rightarrow> unit io" where "tail = (\<lambda>operation.
     io_bind (print_to Stdout ''Deployment started. Waiting for completion...'') (\<lambda>_.
     io_bind (call OperationResult (poller_result operation)) (\<lambda>result.
     io_bind (lift (result_properties result)) (\<lambda>props.
     io_bind (print_to Stdout (completed_line (provisioning_state props))) (\<lambda>_.
     if py_truthy (outputs props) then
       io_bind (print_to Stdout (CHR 0x0A # ''Outputs:'')) (\<lambda>_.
       io_bind (lift (py_items (outputs props))) (\<lambda>items.
       print_outputs (py_repr w) items))
     else io_return ())))))"
  have quiet_tail: "quiet (tail operation)" for operation
    unfolding tail_def by (intro quiet_intros quiet_call; simp)
  have run: "run_deploy w =
    io_bind (call (BeginCreateOrUpdate rg deployment_name request)
                  (begin_create_or_update w rg deployment_name request)) tail
      [Print Stdout ''Initializing Azure deployment...'',
       AzureCliCredential,
       ResourceManagementClient sid,
       Print Stdout (''Compiling '' @ bf @ ''...''),
       SubprocessRun (bicep_command bf),
       OpenFile pf,
       Print Stdout (starting_line rg)]"
    using assms(1-11) pv
    by (simp add: run_deploy_def deploy_py_def main_def compile_bicep_def load_parameters_def
          Let_def request_def tail_def)
  have "filter is_submission (snd (run_deploy w)) =
      [BeginCreateOrUpdate rg deployment_name request]"
    unfolding run by (subst submissions_after_call [OF quiet_tail]) simp
  with pv wrap keys load show ?thesis by (simp add: request_def)
qed

subsection \<open>Every run\<close>

lemma submits_once_sys_exit: "submits_once rg (sys_exit n)"
  by (simp add: submits_once_def)

lemma submits_once_missing:
  "submits_once rg (io_bind (print_to Stderr a) (\<lambda>_. io_bind (print_to Stderr b) (\<lambda>_. sys_exit 1)))"
  by (intro submits_once_bind quiet_print submits_once_sys_exit)

lemma deploy_submits_once:
  "submits_once (getenv_default w ''AZURE_RESOURCE_GROUP'' ''rg-agentic-waf'')
     (deploy_py w ''__main__'')"
  by (simp add: deploy_py_def Let_def submits_once_missing main_submits_once
        split: option.split)

text \<open>
  C8. Every submission of a run has the name \<open>infrastructure-deployment\<close> and the
  incremental mode; a run submits at most once, and a run that ends normally has submitted
  exactly once.
\<close>

theorem submission_incremental_named_once:
  "(\<forall>rg n d. BeginCreateOrUpdate rg n d \<in> set (snd (run_deploy w)) \<longrightarrow>
       n = ''infrastructure-deployment'' \<and> mode (properties d) = Incremental)
   \<and> length (filter is_submission (snd (run_deploy w))) \<le> 1
   \<and> (fst (run_deploy w) = Inr () \<longrightarrow>
         length (filter is_submission (snd (run_deploy w))) = 1)"
proof -
  let ?rg = "getenv_default w ''AZURE_RESOURCE_GROUP'' ''rg-agentic-waf''"
  let ?subs = "filter is_submission (snd (run_deploy w))"
  from deploy_submits_once [of w]
  have cases: "(?subs = [] \<and> fst (run_deploy w) \<noteq> Inr ())
      \<or> (\<exists>d. ?subs = [BeginCreateOrUpdate ?rg deployment_name d]
              \<and> mode (properties d) = Incremental)"
    by (simp add: submits_once_def run_deploy_def)
  have mem: "BeginCreateOrUpdate rg n d \<in> set ?subs"
    if "BeginCreateOrUpdate rg n d \<in> set (snd (run_deploy w))" for rg n d
    using that by simp
  from cases show ?thesis
  proof
    assume none: "?subs = [] \<and> fst (run_deploy w) \<noteq> Inr ()"
    with mem have "BeginCreateOrUpdate rg n d \<notin> set (snd (run_deploy w))" for rg n d
      by (metis empty_iff list.set(1))
    with none show ?thesis by simp
  next
    assume "\<exists>d. ?subs = [BeginCreateOrUpdate ?rg deployment_name d]
              \<and> mode (properties d) = Incremental"
    then obtain d0 where one: "?subs = [BeginCreateOrUpdate ?rg deployment_name d0]"
      and inc: "mode (properties d0) = Incremental" by blast
    have "n = ''infrastructure-deployment'' \<and> mode (properties d) = Incremental"
      if "BeginCreateOrUpdate rg n d \<in> set (snd (run_deploy w))" for rg n d
    proof -
      from mem [OF that] one have "BeginCreateOrUpdate rg n d = BeginCreateOrUpdate ?rg deployment_name d0"
        by simp
      with inc show ?thesis by (simp add: deployment_name_def)
    qed
    with one show ?thesis by simp
  qed
qed

subsection \<open>The successful run\<close>

lemma print_outputs_dicts:
  "print_outputs repr (map (\<lambda>(k, d). (k, JObj d)) entries) t =
     (Inr (),
      t @ map (\<lambda>(k, d). Print Stdout (''  '' @ k @ '': '' @
                (case map_of d ''value'' of None \<Rightarrow> ''N/A'' | Some x \<Rightarrow> py_str repr x)))
            entries)"
proof (induction entries arbitrary: t)
  case Nil
  show ?case by simp
next
  case (Cons e entries)
  obtain k d where e: "e = (k, d)" by (cases e)
  show ?case by (cases "map_of d ''value''") (simp_all add: e Cons.IH)
qed

lemma printed_prints:
  "printed Stdout (map (\<lambda>(k, d). Print Stdout (f k d)) entries) = map (\<lambda>(k, d). f k d) entries"
  by (induction entries) auto

text \<open>
  C9. On a run in which every collaborator succeeds and the remote result declares outputs,
  each of them a dict, stdout receives the progress lines, the completion line with the
  provisioning state, the heading, and one line per output: two blanks, the key, a colon and
  the \<open>str\<close> of the entry's \<open>value\<close>, or \<open>N/A\<close> when the entry has none. In the mocked
  world of the specification stdout contains \<open>Succeeded\<close> and \<open>url: http://example\<close>.
\<close>

theorem outputs_printed:
  assumes "getenv w ''AZURE_SUBSCRIPTION_ID'' = Some sid" and "sid \<noteq> []"
    and "rg = getenv_default w ''AZURE_RESOURCE_GROUP'' ''rg-agentic-waf''"
    and "bf = getenv_default w ''BICEP_TEMPLATE_FILE'' ''infra/bicep/main.bicep''"
    and "pf = getenv_default w ''BICEP_PARAMETERS_FILE'' ''infra/bicep/main.parameters.json''"
    and "azure_cli_credential w = Inr ()"
    and "resource_management_client w sid = Inr ()"
    and "subprocess_run w (bicep_command bf) = Inr cp" and "returncode cp = 0"
    and "json_loads w (stdout cp) = Inr tmpl"
    and "json_load_file w pf = Inr doc" and "parameter_values doc = Inr params"
    and "begin_create_or_update w rg deployment_name
           (Deployment \<lparr> mode = Incremental, template = tmpl,
                          parameters = wrap_values [] params \<rparr>)
         = Inr (LROPoller (Inr (DeploymentExtended (Some props))))"
    and "outputs props = JObj (map (\<lambda>(k, d). (k, JObj d)) entries)" and "entries \<noteq> []"
  shows "fst (run_deploy w) = Inr ()
    \<and> printed Stdout (snd (run_deploy w)) =
        [''Initializing Azure deployment...'',
         ''Compiling '' @ bf @ ''...'',
         starting_line rg,
         ''Deployment started. Waiting for completion...'',
         completed_line (provisioning_state props),
         CHR 0x0A # ''Outputs:'']
        @ map (\<lambda>(k, d). ''  '' @ k @ '': '' @
                 (case map_of d ''value'' of None \<Rightarrow> ''N/A''
                  | Some x \<Rightarrow> py_str (py_repr w) x)) entries
    \<and> printed Stderr (snd (run_deploy w)) = []"
proof -
  have run: "run_deploy w =
    print_outputs (py_repr w) (map (\<lambda>(k, d). (k, JObj d)) entries)
      [Print Stdout ''Initializing Azure deployment...'',
       AzureCliCredential,
       ResourceManagementClient sid,
       Print Stdout (''Compiling '' @ bf @ ''...''),
       SubprocessRun (bicep_command bf),
       OpenFile pf,
       Print Stdout (starting_line rg),
       BeginCreateOrUpdate rg deployment_name
         (Deployment \<lparr> mode = Incremental, template = tmpl,
                        parameters = wrap_values [] params \<rparr>),
       Print Stdout ''Deployment started. Waiting for completion...'',
       OperationResult,
       Print Stdout (completed_line (provisioning_state props)),
       Print Stdout (CHR 0x0A # ''Outputs:'')]"
    using assms
    by (simp add: run_deploy_def deploy_py_def main_def compile_bicep_def load_parameters_def
          Let_def)
  show ?thesis
    unfolding run print_outputs_dicts
    by (simp add: printed_prints) (induction entries; auto)
qed

subsection \<open>The mocked worlds\<close>

lemma mock_run:
  "run_deploy mock_world =
    (Inr (),
     [Print Stdout ''Initializing Azure deployment...'',
      AzureCliCredential,
      ResourceManagementClient ''sub-0001'',
      Print Stdout ''Compiling infra/bicep/main.bicep...'',
      SubprocessRun [''az'', ''bicep'', ''build'', ''--file'', ''infra/bicep/main.bicep'',
                     ''--stdout''],
      OpenFile ''infra/bicep/main.parameters.json'',
      Print Stdout (starting_line ''rg-agentic-waf''),
      BeginCreateOrUpdate ''rg-agentic-waf'' ''infrastructure-deployment''
        (Deployment \<lparr> mode = Incremental, template = JObj [],
           parameters = [(''a'', JObj [(''value'', JInt 1)]),
                         (''b'', JObj [(''value'', JStr ''x'')])] \<rparr>),
      Print Stdout ''Deployment started. Waiting for completion...'',
      OperationResult,
      Print Stdout (completed_line (Some ''Succeeded'')),
      Print Stdout (CHR 0x0A # ''Outputs:''),
      Print Stdout ''  url: http://example''])"
  by (simp add: run_deploy_def deploy_py_def main_def compile_bicep_def load_parameters_def
        parameter_values_def mock_world_def mock_result_def example_parameters_document_def
        getenv_default_def bicep_command_def deployment_name_def Let_def)

theorem missing_subscription_exits_witness:
  "getenv mock_world_unset ''AZURE_SUBSCRIPTION_ID'' = None
   \<and> exit_status (fst (deploy_py mock_world_unset ''__main__'' [])) = 1
   \<and> sublist ''AZURE_SUBSCRIPTION_ID''
        (stream_text Stderr (snd (deploy_py mock_world_unset ''__main__'' [])))
   \<and> list_all is_print (snd (deploy_py mock_world_unset ''__main__'' []))"
proof -
  have unset: "getenv mock_world_unset ''AZURE_SUBSCRIPTION_ID'' = None"
    by (simp add: mock_world_unset_def)
  from missing_subscription_exits [OF unset, of "''__main__''"] unset show ?thesis by simp
qed

theorem compile_failure_exits_witness:
  "subprocess_run mock_world_bicep_error
     [''az'', ''bicep'', ''build'', ''--file'', ''infra/bicep/main.bicep'', ''--stdout'']
     = Inr \<lparr> returncode = 1, stdout = [], stderr = ''Error BCP018'' \<rparr>
   \<and> exit_status (fst (run_deploy mock_world_bicep_error)) = 1
   \<and> printed Stderr (snd (run_deploy mock_world_bicep_error))
       = [''Error compiling Bicep: Error BCP018'']
   \<and> filter is_submission (snd (run_deploy mock_world_bicep_error)) = []"
proof -
  let ?cp = "\<lparr> returncode = 1, stdout = [], stderr = ''Error BCP018'' \<rparr>"
  have env: "getenv mock_world_bicep_error ''AZURE_SUBSCRIPTION_ID'' = Some ''sub-0001''"
    and sid: "''sub-0001'' \<noteq> []"
    and cred: "azure_cli_credential mock_world_bicep_error = Inr ()"
    and client: "resource_management_client mock_world_bicep_error ''sub-0001'' = Inr ()"
    and sub: "subprocess_run mock_world_bicep_error
           (bicep_command (getenv_default mock_world_bicep_error ''BICEP_TEMPLATE_FILE''
              ''infra/bicep/main.bicep''))
         = Inr ?cp"
    and rc: "returncode ?cp \<noteq> 0"
    by (simp_all add: mock_world_bicep_error_def mock_world_def)
  from compile_failure_exits [OF env sid cred client sub rc] show ?thesis
    by (simp add: mock_world_bicep_error_def)
qed

theorem submission_incremental_named_once_witness:
  "fst (run_deploy mock_world) = Inr ()
   \<and> length (filter is_submission (snd (run_deploy mock_world))) = 1
   \<and> BeginCreateOrUpdate ''rg-agentic-waf'' ''infrastructure-deployment''
        (Deployment \<lparr> mode = Incremental, template = JObj [],
           parameters = [(''a'', JObj [(''value'', JInt 1)]),
                         (''b'', JObj [(''value'', JStr ''x'')])] \<rparr>)
      \<in> set (snd (run_deploy mock_world))"
  using submission_incremental_named_once [of mock_world] by (simp add: mock_run)

theorem outputs_printed_witness:
  "fst (run_deploy mock_world) = Inr ()
   \<and> printed Stdout (snd (run_deploy mock_world)) =
        [''Initializing Azure deployment...'',
         ''Compiling infra/bicep/main.bicep...'',
         starting_line ''rg-agentic-waf'',
         ''Deployment started. Waiting for completion...'',
         completed_line (Some ''Succeeded''),
         CHR 0x0A # ''Outputs:'',
         ''  url: http://example'']
   \<and> sublist ''Succeeded'' (stream_text Stdout (snd (run_deploy mock_world)))
   \<and> sublist ''url: http://example'' (stream_text Stdout (snd (run_deploy mock_world)))"
proof -
  let ?props = "\<lparr> provisioning_state = Some ''Succeeded'',
         outputs = JObj [(''url'', JObj [(''value'', JStr ''http://example'')])] \<rparr>"
  have lines: "printed Stdout (snd (run_deploy mock_world)) =
        [''Initializing Azure deployment...'',
         ''Compiling infra/bicep/main.bicep...'',
         starting_line ''rg-agentic-waf'',
         ''Deployment started. Waiting for completion...'',
         completed_line (Some ''Succeeded''),
         CHR 0x0A # ''Outputs:'',
         ''  url: http://example'']"
    and ok: "fst (run_deploy mock_world) = Inr ()"
    using outputs_printed [of mock_world "''sub-0001''" "''rg-agentic-waf''"
        "''infra/bicep/main.bicep''" "''infra/bicep/main.parameters.json''"
        "\<lparr> returncode = 0, stdout = ''{}'', stderr = [] \<rparr>" "JObj []"
        example_parameters_document "[(''a'', JInt 1), (''b'', JStr ''x'')]"
        ?props "[(''url'', [(''value'', JStr ''http://example'')])]"]
    by (simp_all add: mock_world_def mock_result_def example_parameters_document_def
          parameter_values_def getenv_default_def)
  have whole: "stream_text Stdout (snd (run_deploy mock_world)) =
      (''Initializing Azure deployment...'' @ [CHR 0x0A]
        @ ''Compiling infra/bicep/main.bicep...'' @ [CHR 0x0A]
        @ starting_line ''rg-agentic-waf'' @ [CHR 0x0A]
        @ ''Deployment started. Waiting for completion...'' @ [CHR 0x0A]
        @ [CHR 0x0A, CHR 0xE2, CHR 0x9C, CHR 0x93] @ '' Deployment completed: '')
      @ ''Succeeded''
      @ ([CHR 0x0A] @ (CHR 0x0A # ''Outputs:'') @ [CHR 0x0A] @ ''  '' @ ''url: http://example''
         @ [CHR 0x0A])"
    by (simp add: stream_text_def lines completed_line_def)
  have s1: "sublist ''Succeeded'' (stream_text Stdout (snd (run_deploy mock_world)))"
    unfolding whole by (rule sublist_appendI)
  have whole2: "stream_text Stdout (snd (run_deploy mock_world)) =
      (''Initializing Azure deployment...'' @ [CHR 0x0A]
        @ ''Compiling infra/bicep/main.bicep...'' @ [CHR 0x0A]
        @ starting_line ''rg-agentic-waf'' @ [CHR 0x0A]
        @ ''Deployment started. Waiting for completion...'' @ [CHR 0x0A]
        @ completed_line (Some ''Succeeded'') @ [CHR 0x0A]
        @ (CHR 0x0A # ''Outputs:'') @ [CHR 0x0A] @ ''  '')
      @ ''url: http://example''
      @ [CHR 0x0A]"
    by (simp add: stream_text_def lines)
  have s2: "sublist ''url: http://example'' (stream_text Stdout (snd (run_deploy mock_world)))"
    unfolding whole2 by (rule sublist_appendI)
  from ok lines s1 s2 show ?thesis by simp
qed

lemma missing_value_printed_as_na:
  "print_outputs repr [(''id'', JObj [(''type'', JStr ''String'')])] [] =
     (Inr (), [Print Stdout ''  id: N/A''])"
  by simp

lemma null_value_printed_by_repr:
  "print_outputs repr [(''id'', JObj [(''value'', JNull)])] [] =
     (Inr (), [Print Stdout (''  id: '' @ repr JNull)])"
  by simp

lemma output_not_a_dict_raises:
  "print_outputs repr [(''id'', JStr ''x'')] [] = (Inl (Raise AttributeError), [])"
  by simp

theorem rewrap_keeps_only_values_witness:
  "load_parameters mock_world_annotated ''infra/bicep/main.parameters.json'' [] =
     (Inr [(''a'', JInt 1), (''b'', JStr ''x'')], [OpenFile ''infra/bicep/main.parameters.json''])
   \<and> filter is_submission (snd (run_deploy mock_world_annotated)) =
       [BeginCreateOrUpdate ''rg-agentic-waf'' ''infrastructure-deployment''
          (Deployment \<lparr> mode = Incremental, template = JObj [],
             parameters = [(''a'', JObj [(''value'', JInt 1)]),
                           (''b'', JObj [(''value'', JStr ''x'')])] \<rparr>)]"
proof -
  let ?ps = "[(''a'', JObj [(''value'', JInt 1), (''type'', JStr ''int'')]),
              (''b'', JObj [(''metadata'', JNull), (''value'', JStr ''x'')])]"
  let ?doc = "[(''$schema'', JStr ''https://schema.management.azure.com/deploymentParameters.json''),
           (''contentVersion'', JStr ''1.0.0.0''),
           (''parameters'', JObj ?ps)]"
  have env: "getenv mock_world_annotated ''AZURE_SUBSCRIPTION_ID'' = Some ''sub-0001''"
    and sid: "''sub-0001'' \<noteq> []"
    and rg: "''rg-agentic-waf'' =
        getenv_default mock_world_annotated ''AZURE_RESOURCE_GROUP'' ''rg-agentic-waf''"
    and bf: "''infra/bicep/main.bicep'' =
        getenv_default mock_world_annotated ''BICEP_TEMPLATE_FILE'' ''infra/bicep/main.bicep''"
    and pf: "''infra/bicep/main.parameters.json'' =
        getenv_default mock_world_annotated ''BICEP_PARAMETERS_FILE''
          ''infra/bicep/main.parameters.json''"
    and cred: "azure_cli_credential mock_world_annotated = Inr ()"
    and client: "resource_management_client mock_world_annotated ''sub-0001'' = Inr ()"
    and sub: "subprocess_run mock_world_annotated (bicep_command ''infra/bicep/main.bicep'')
        = Inr \<lparr> returncode = 0, stdout = ''{}'', stderr = [] \<rparr>"
    and rc: "returncode \<lparr> returncode = 0, stdout = ''{}'', stderr = [] \<rparr> = 0"
    and tmpl: "json_loads mock_world_annotated
        (stdout \<lparr> returncode = 0, stdout = ''{}'', stderr = [] \<rparr>) = Inr (JObj [])"
    and loaded: "json_load_file mock_world_annotated ''infra/bicep/main.parameters.json''
        = Inr (JObj ?doc)"
    by (simp_all add: mock_world_annotated_def mock_world_def getenv_default_def
          annotated_parameters_document_def)
  have params: "map_of ?doc ''parameters'' = Some (JObj ?ps)" by simp
  have keys: "distinct (map fst ?ps)" by simp
  have rel: "list_all2 (\<lambda>(k, v) (k', x). k' = k \<and> (\<exists>d. v = JObj d \<and> map_of d ''value'' = Some x))
      ?ps [(''a'', JInt 1), (''b'', JStr ''x'')]"
    by simp
  from rewrap_keeps_only_values
         [OF env sid rg bf pf cred client sub rc tmpl loaded params keys rel]
  show ?thesis by (simp add: deployment_name_def)
qed

end
